theory Spec2Isabelle
  imports Complex_Main
begin

section \<open>Angle arithmetic of \<^verbatim>\<open>shell/observable.py\<close>\<close>

subsection \<open>\<^verbatim>\<open>float64\<close> arithmetic\<close>

text \<open>
  The two kernels \<^verbatim>\<open>adjust_angles\<close> and \<^verbatim>\<open>_adjust_diff\<close> are compiled for the signature
  \<^verbatim>\<open>float64(float64)\<close> and act on one angle at a time.  A finite \<^verbatim>\<open>float64\<close> is the real
  number it denotes.  \<^verbatim>\<open>pi = np.pi\<close> is the \<^verbatim>\<open>float64\<close> nearest to \<open>\<pi>\<close>, a little below it.
\<close>

definition np_pi :: real where
  "np_pi = 884279719003555 / 281474976710656"

text \<open>
  The result of an addition, a subtraction or a multiplication is the exact result rounded
  to the nearest \<^verbatim>\<open>float64\<close>, a tie going to the even significand: a multiple of the unit
  in the last place of the binade, \<open>2\<^sup>e\<^sup>-\<^sup>5\<^sup>2\<close> with \<open>e\<close> the binary exponent (not below
  \<open>-1022\<close>, where the subnormal numbers begin).  Overflow to an infinity is not modelled.
\<close>

definition round_even :: "real \<Rightarrow> int" where
  "round_even r =
     (let f = \<lfloor>r\<rfloor>
      in if r - of_int f < 1 / 2 then f
         else if 1 / 2 < r - of_int f then f + 1
         else if even f then f else f + 1)"

definition round64 :: "real \<Rightarrow> real" where
  "round64 x =
     (if x = 0 then 0
      else let e = max \<lfloor>log 2 \<bar>x\<bar>\<rfloor> (- 1022); u = 2 powi (e - 52)
           in u * of_int (round_even (x / u)))"

definition fsub :: "real \<Rightarrow> real \<Rightarrow> real" where
  "fsub x y = round64 (x - y)"

definition fadd :: "real \<Rightarrow> real \<Rightarrow> real" where
  "fadd x y = round64 (x + y)"

definition fmul :: "real \<Rightarrow> real \<Rightarrow> real" where
  "fmul x y = round64 (x * y)"

subsection \<open>\<^verbatim>\<open>adjust_angles\<close>\<close>

text \<open>
  Each kernel is two \<^verbatim>\<open>while\<close> loops run one after the other.  A loop is a recursive
  function with the loop test of the source as its guard; its result is \<open>None\<close> when the
  loop does not end.

  \<^verbatim>\<open>while (psi > pi): psi -= 2*pi\<close>
\<close>

partial_function (option) adjust_angles_down :: "real \<Rightarrow> real option" where
  "adjust_angles_down psi =
     (if psi > np_pi then adjust_angles_down (fsub psi (fmul 2 np_pi)) else Some psi)"

text \<open>\<^verbatim>\<open>while (psi <= -pi): psi += 2*pi\<close>\<close>

partial_function (option) adjust_angles_up :: "real \<Rightarrow> real option" where
  "adjust_angles_up psi =
     (if psi \<le> - np_pi then adjust_angles_up (fadd psi (fmul 2 np_pi)) else Some psi)"

text \<open>The kernel: the first loop, then the second loop on its result.\<close>

definition adjust_angles :: "real \<Rightarrow> real option" where
  "adjust_angles psi =
     (case adjust_angles_down psi of None \<Rightarrow> None | Some psi' \<Rightarrow> adjust_angles_up psi')"

subsection \<open>\<^verbatim>\<open>_adjust_diff\<close>\<close>

text \<open>\<^verbatim>\<open>while (abs(diff-pi) < abs(diff)): diff -= pi\<close>\<close>

partial_function (option) adjust_diff_down :: "real \<Rightarrow> real option" where
  "adjust_diff_down diff =
     (if \<bar>fsub diff np_pi\<bar> < \<bar>diff\<bar> then adjust_diff_down (fsub diff np_pi) else Some diff)"

text \<open>\<^verbatim>\<open>while (abs(diff+pi) < abs(diff)): diff += pi\<close>\<close>

partial_function (option) adjust_diff_up :: "real \<Rightarrow> real option" where
  "adjust_diff_up diff =
     (if \<bar>fadd diff np_pi\<bar> < \<bar>diff\<bar> then adjust_diff_up (fadd diff np_pi) else Some diff)"

text \<open>The kernel: the first loop, then the second loop on its result.\<close>

definition adjust_diff :: "real \<Rightarrow> real option" where
  "adjust_diff diff =
     (case adjust_diff_down diff of None \<Rightarrow> None | Some diff' \<Rightarrow> adjust_diff_up diff')"

section \<open>Numbers, units and arrays\<close>

subsection \<open>Values of \<^verbatim>\<open>float64\<close> arithmetic\<close>

text \<open>
  The input fields hold real numbers.  Two operations of the source leave the reals on
  finite arguments: a division by zero (\<^verbatim>\<open>By/Bx\<close>) and a zero base under a negative
  exponent (\<^verbatim>\<open>Bperp2**((gamma+1)/4)\<close>).  NumPy does not raise there: it yields an
  infinity or a NaN, which later operations propagate.  The values computed from them
  are therefore of type \<open>fl\<close>: a real, an infinity with its sign (\<open>Infty True\<close> is
  \<open>+\<infinity>\<close>), or NaN.  Rounding, overflow and the sign of zero are not modelled: a zero
  divisor counts as \<open>+0\<close>.
\<close>

datatype fl = Fin real | Infty bool | NaN

fun fl_add :: "fl \<Rightarrow> fl \<Rightarrow> fl" where
  "fl_add (Fin a) (Fin b) = Fin (a + b)"
| "fl_add (Fin a) (Infty s) = Infty s"
| "fl_add (Infty s) (Fin b) = Infty s"
| "fl_add (Infty s) (Infty t) = (if s = t then Infty s else NaN)"
| "fl_add NaN _ = NaN"
| "fl_add _ NaN = NaN"

fun fl_mul :: "fl \<Rightarrow> fl \<Rightarrow> fl" where
  "fl_mul (Fin a) (Fin b) = Fin (a * b)"
| "fl_mul (Fin a) (Infty s) = (if a = 0 then NaN else Infty ((0 < a) = s))"
| "fl_mul (Infty s) (Fin b) = (if b = 0 then NaN else Infty ((0 < b) = s))"
| "fl_mul (Infty s) (Infty t) = Infty (s = t)"
| "fl_mul NaN _ = NaN"
| "fl_mul _ NaN = NaN"

text \<open>\<^verbatim>\<open>a / b\<close> on two finite values.\<close>

definition np_divide :: "real \<Rightarrow> real \<Rightarrow> fl" where
  "np_divide a b =
     (if b = 0 then (if a = 0 then NaN else Infty (0 < a)) else Fin (a / b))"

fun fl_div :: "fl \<Rightarrow> fl \<Rightarrow> fl" where
  "fl_div (Fin a) (Fin b) = np_divide a b"
| "fl_div (Fin a) (Infty s) = Fin 0"
| "fl_div (Infty s) (Fin b) = Infty ((0 \<le> b) = s)"
| "fl_div (Infty s) (Infty t) = NaN"
| "fl_div NaN _ = NaN"
| "fl_div _ NaN = NaN"

text \<open>
  \<^verbatim>\<open>a ** p\<close> on a finite base and a finite exponent, as C's \<^verbatim>\<open>pow\<close> has it: anything to
  the power \<open>0\<close> is \<open>1\<close>; a zero base gives \<open>0\<close> under a positive exponent and \<open>+\<infinity>\<close>
  under a negative one; a negative base is defined for integer exponents only.
\<close>

definition np_power :: "real \<Rightarrow> real \<Rightarrow> fl" where
  "np_power a p =
     (if p = 0 then Fin 1
      else if 0 < a then Fin (a powr p)
      else if a = 0 then (if 0 < p then Fin 0 else Infty True)
      else if p \<in> \<int> then Fin (a powi \<lfloor>p\<rfloor>)
      else NaN)"

fun fl_arctan :: "fl \<Rightarrow> fl" where
  "fl_arctan (Fin a) = Fin (arctan a)"
| "fl_arctan (Infty s) = Fin (if s then pi / 2 else - (pi / 2))"
| "fl_arctan NaN = NaN"

fun fl_sin :: "fl \<Rightarrow> fl" where
  "fl_sin (Fin a) = Fin (sin a)"
| "fl_sin _ = NaN"

fun fl_cos :: "fl \<Rightarrow> fl" where
  "fl_cos (Fin a) = Fin (cos a)"
| "fl_cos _ = NaN"

text \<open>Comparisons against a finite bound; a comparison with NaN is false.\<close>

fun fl_gt :: "fl \<Rightarrow> real \<Rightarrow> bool" where
  "fl_gt (Fin a) c = (c < a)"
| "fl_gt (Infty s) c = s"
| "fl_gt NaN c = False"

fun fl_lt :: "fl \<Rightarrow> real \<Rightarrow> bool" where
  "fl_lt (Fin a) c = (a < c)"
| "fl_lt (Infty s) c = (\<not> s)"
| "fl_lt NaN c = False"

subsection \<open>Units and quantities\<close>

text \<open>
  An \<^verbatim>\<open>astropy\<close> unit is a scale factor and the exponents of its base units.  The units
  the source names involve a length (metre), a magnetic flux density (gauss) and an angle
  (radian); the scale is relative to these.  A quantity is a value with a unit.
\<close>

record phys_unit =
  scale :: real
  len :: real
  fld :: real
  ang :: real

record 'a quantity =
  "value" :: 'a
  unit :: phys_unit

definition u_rad :: phys_unit where
  "u_rad = \<lparr>scale = 1, len = 0, fld = 0, ang = 1\<rparr>"

definition u_m :: phys_unit where
  "u_m = \<lparr>scale = 1, len = 1, fld = 0, ang = 0\<rparr>"

definition u_cm :: phys_unit where
  "u_cm = \<lparr>scale = 1 / 100, len = 1, fld = 0, ang = 0\<rparr>"

definition u_pc :: phys_unit where
  "u_pc = \<lparr>scale = 30856775814913673, len = 1, fld = 0, ang = 0\<rparr>"

definition u_microgauss :: phys_unit where
  "u_microgauss = \<lparr>scale = 1 / 1000000, len = 0, fld = 1, ang = 0\<rparr>"

definition u_mul :: "phys_unit \<Rightarrow> phys_unit \<Rightarrow> phys_unit" where
  "u_mul a b = \<lparr>scale = scale a * scale b, len = len a + len b,
                fld = fld a + fld b, ang = ang a + ang b\<rparr>"

definition u_div :: "phys_unit \<Rightarrow> phys_unit \<Rightarrow> phys_unit" where
  "u_div a b = \<lparr>scale = scale a / scale b, len = len a - len b,
                fld = fld a - fld b, ang = ang a - ang b\<rparr>"

definition u_pow :: "phys_unit \<Rightarrow> real \<Rightarrow> phys_unit" where
  "u_pow a p = \<lparr>scale = scale a powr p, len = len a * p,
                fld = fld a * p, ang = ang a * p\<rparr>"

datatype error = UnitConversionError | UnitTypeError | ValueError | ZeroDivisionError

text \<open>
  The factor that converts a value in unit \<open>a\<close> into unit \<open>b\<close>; units of different
  dimensions do not convert.
\<close>

definition convert :: "phys_unit \<Rightarrow> phys_unit \<Rightarrow> error + real" where
  "convert a b =
     (if len a = len b \<and> fld a = fld b \<and> ang a = ang b
      then Inr (scale a / scale b) else Inl UnitConversionError)"

subsection \<open>Arrays\<close>

text \<open>
  A gridded field is a three-dimensional array, the depth axis last (\<^verbatim>\<open>axis=2\<close>): a
  list of lists of depth columns.  A map is a list of lists.  An element-wise operation
  needs operands of one shape (broadcasting is modelled for scalars only).
\<close>

type_synonym 'a arr3 = "'a list list list"
type_synonym 'a arr2 = "'a list list"

definition shape_of :: "'a arr3 \<Rightarrow> nat list list" where
  "shape_of a = map (map length) a"

definition map3 :: "('a \<Rightarrow> 'b) \<Rightarrow> 'a arr3 \<Rightarrow> 'b arr3" where
  "map3 f a = map (map (map f)) a"

definition zip3 :: "('a \<Rightarrow> 'b \<Rightarrow> 'c) \<Rightarrow> 'a arr3 \<Rightarrow> 'b arr3 \<Rightarrow> error + 'c arr3" where
  "zip3 f a b =
     (if shape_of a = shape_of b then Inr (map2 (map2 (map2 f)) a b) else Inl ValueError)"

definition map_cols :: "('a list \<Rightarrow> 'b) \<Rightarrow> 'a arr3 \<Rightarrow> 'b arr2" where
  "map_cols f a = map (map f) a"

text \<open>Collecting the results of a computation that may fail in each element.\<close>

fun sequence :: "(error + 'a) list \<Rightarrow> error + 'a list" where
  "sequence [] = Inr []"
| "sequence (Inl e # _) = Inl e"
| "sequence (Inr x # rs) = (case sequence rs of Inl e \<Rightarrow> Inl e | Inr xs \<Rightarrow> Inr (x # xs))"

definition zip_cols ::
  "('a list \<Rightarrow> 'b list \<Rightarrow> error + 'c) \<Rightarrow> 'a arr3 \<Rightarrow> 'b arr3 \<Rightarrow> error + 'c arr2" where
  "zip_cols f a b =
     (if map length a = map length b
      then sequence (map2 (\<lambda>ra rb. sequence (map2 f ra rb)) a b)
      else Inl ValueError)"

section \<open>Integration along the depth axis\<close>

text \<open>\<^verbatim>\<open>np.diff\<close> of one depth column.\<close>

fun diff :: "real list \<Rightarrow> real list" where
  "diff (a # b # xs) = (b - a) # diff (b # xs)"
| "diff _ = []"

text \<open>
  \<^verbatim>\<open>trapz(y, x)\<close> on one column of real values:
  \<^verbatim>\<open>(d * (y[1:] + y[:-1]) / 2.0).sum()\<close> with \<^verbatim>\<open>d = diff(x)\<close>.  The product needs the two
  factors to be of one length.
\<close>

definition trapz :: "real list \<Rightarrow> real list \<Rightarrow> error + real" where
  "trapz y x =
     (let d = diff x; s = map2 (+) (tl y) (butlast y)
      in if length d = length s then Inr (sum_list (map2 (\<lambda>d s. d * s / 2) d s))
         else Inl ValueError)"

text \<open>The same rule on a column of \<open>fl\<close> values (the depth samples are real).\<close>

definition fl_sum :: "fl list \<Rightarrow> fl" where
  "fl_sum xs = foldl fl_add (Fin 0) xs"

definition trapz_fl :: "fl list \<Rightarrow> real list \<Rightarrow> error + fl" where
  "trapz_fl y x =
     (let d = diff x; s = map2 fl_add (tl y) (butlast y)
      in if length d = length s
         then Inr (fl_sum (map2 (\<lambda>d s. fl_div (fl_mul (Fin d) s) (Fin 2)) d s))
         else Inl ValueError)"

text \<open>\<^verbatim>\<open>np.cumsum\<close>, from a running total.\<close>

fun cumsum_from :: "real \<Rightarrow> real list \<Rightarrow> real list" where
  "cumsum_from acc [] = []"
| "cumsum_from acc (x # xs) = (acc + x) # cumsum_from (acc + x) xs"

text \<open>
  \<^verbatim>\<open>cumtrapz(y, x, initial=0)\<close> on one column: SciPy raises unless \<^verbatim>\<open>diff(x)\<close> has one
  element less than \<^verbatim>\<open>y\<close>; the running sums of the trapezoids follow the initial \<open>0\<close>.
\<close>

definition cumtrapz :: "real list \<Rightarrow> real list \<Rightarrow> error + real list" where
  "cumtrapz y x =
     (let d = diff x
      in if int (length d) \<noteq> int (length y) - 1 then Inl ValueError
         else Inr (0 # cumsum_from 0 (map2 (\<lambda>d s. d * s / 2) d (map2 (+) (tl y) (butlast y)))))"

text \<open>
  The depth array is one-dimensional (the depth axis alone) or three-dimensional (the
  depth of every grid point).  \<open>depth_cols\<close> gives the depth samples of every column of a
  field: a one-dimensional axis is shared by all columns.
\<close>

datatype depth_values = Axis1D "real list" | Axis3D "real arr3"

fun depth_cols :: "depth_values \<Rightarrow> 'a arr3 \<Rightarrow> real arr3" where
  "depth_cols (Axis1D xs) y = map (map (\<lambda>_. xs)) y"
| "depth_cols (Axis3D a) y = a"

fun scale_depth :: "real \<Rightarrow> depth_values \<Rightarrow> depth_values" where
  "scale_depth f (Axis1D xs) = Axis1D (map (\<lambda>x. x * f) xs)"
| "scale_depth f (Axis3D a) = Axis3D (map3 (\<lambda>x. x * f) a)"

text \<open>\<^verbatim>\<open>integrate(y, depth_grid, axis=2)\<close> on quantities: the units multiply.\<close>

definition integrate ::
  "fl arr3 quantity \<Rightarrow> depth_values quantity \<Rightarrow> error + fl arr2 quantity" where
  "integrate y depth_grid =
     (case zip_cols trapz_fl (value y) (depth_cols (value depth_grid) (value y)) of
        Inl e \<Rightarrow> Inl e
      | Inr v \<Rightarrow> Inr \<lparr>value = v, unit = u_mul (unit depth_grid) (unit y)\<rparr>)"

section \<open>\<^verbatim>\<open>compute_stokes_parameters\<close> and \<^verbatim>\<open>compute_fd\<close>\<close>

subsection \<open>Arguments\<close>

text \<open>
  \<^verbatim>\<open>depth_grid\<close> is either the depth array itself or an object with an attribute \<^verbatim>\<open>z\<close>
  (a full grid) that holds it.  A warning that is issued is recorded in the result.
\<close>

datatype depth_arg = DepthArray "depth_values quantity" | GridObject (z: "depth_values quantity")

datatype warning = DeprecationWarning

text \<open>\<^verbatim>\<open>if hasattr(depth_grid,'z'): warnings.warn(...); depth_grid = depth_grid.z\<close>\<close>

fun legacy_depth_grid :: "depth_arg \<Rightarrow> warning list \<times> depth_values quantity" where
  "legacy_depth_grid (GridObject g) = ([DeprecationWarning], g)"
| "legacy_depth_grid (DepthArray d) = ([], d)"

subsection \<open>Emissivity\<close>

text \<open>\<^verbatim>\<open>Bperp2 = Bx**2+By**2\<close>: the second summand is converted to the unit of the first.\<close>

definition Bperp2 :: "real arr3 quantity \<Rightarrow> real arr3 quantity \<Rightarrow> error + real arr3 quantity" where
  "Bperp2 Bx By =
     (case convert (u_pow (unit By) 2) (u_pow (unit Bx) 2) of
        Inl e \<Rightarrow> Inl e
      | Inr f \<Rightarrow>
          (case zip3 (\<lambda>bx by. bx ^ 2 + by ^ 2 * f) (value Bx) (value By) of
             Inl e \<Rightarrow> Inl e
           | Inr v \<Rightarrow> Inr \<lparr>value = v, unit = u_pow (unit Bx) 2\<rparr>))"

text \<open>\<^verbatim>\<open>emissivity = ncr * Bperp2**((gamma+1)/4) * wavelength**((gamma-1)/2)\<close>\<close>

definition emissivity ::
  "real arr3 quantity \<Rightarrow> real arr3 quantity \<Rightarrow> real quantity \<Rightarrow> real \<Rightarrow> error + fl arr3 quantity" where
  "emissivity ncr bperp2 wavelength gamma =
     (case zip3 (\<lambda>n b. fl_mul (Fin n) (np_power b ((gamma + 1) / 4))) (value ncr) (value bperp2) of
        Inl e \<Rightarrow> Inl e
      | Inr v \<Rightarrow>
          Inr \<lparr>value = map3 (\<lambda>x. fl_mul x (np_power (value wavelength) ((gamma - 1) / 2))) v,
               unit = u_mul (u_mul (unit ncr) (u_pow (unit bperp2) ((gamma + 1) / 4)))
                            (u_pow (unit wavelength) ((gamma - 1) / 2))\<rparr>)"

subsection \<open>Intrinsic polarization angle\<close>

text \<open>
  One voxel of \<^verbatim>\<open>psi0\<close>, with \<open>f\<close> the factor that makes \<^verbatim>\<open>By/Bx\<close> a pure number:
  \<^verbatim>\<open>np.arctan(By/Bx) + pi/2\<close>, then \<open>0\<close> where both components are exactly zero, then
  the two shifts by \<open>2\<pi>\<close> of the values above \<open>\<pi>\<close> and below \<open>-\<pi>\<close>.
\<close>

definition psi0_voxel :: "real \<Rightarrow> real \<Rightarrow> real \<Rightarrow> fl" where
  "psi0_voxel f by bx =
     (let a = fl_add (fl_arctan (fl_mul (np_divide by bx) (Fin f))) (Fin (pi / 2));
          b = (if by = 0 \<and> bx = 0 then Fin 0 else a);
          c = (if fl_gt b pi then fl_add b (Fin (- (2 * pi))) else b)
      in if fl_lt c (- pi) then fl_add c (Fin (2 * pi)) else c)"

definition u_dimensionless :: phys_unit where
  "u_dimensionless = \<lparr>scale = 1, len = 0, fld = 0, ang = 0\<rparr>"

definition psi0 :: "real arr3 quantity \<Rightarrow> real arr3 quantity \<Rightarrow> error + fl arr3 quantity" where
  "psi0 Bx By =
     (case zip3 (\<lambda>by bx. (by, bx)) (value By) (value Bx) of
        Inl e \<Rightarrow> Inl e
      | Inr r \<Rightarrow>
          (case convert (u_div (unit By) (unit Bx)) u_dimensionless of
             Inl e \<Rightarrow> Inl UnitTypeError
           | Inr f \<Rightarrow> Inr \<lparr>value = map3 (\<lambda>(by, bx). psi0_voxel f by bx) r, unit = u_rad\<rparr>))"

subsection \<open>Faraday rotation\<close>

text \<open>The unit of a rotation measure, \<^verbatim>\<open>u.rad/u.m**2\<close>, and that of a density, \<^verbatim>\<open>u.cm**-3\<close>.\<close>

definition u_rad_per_m2 :: phys_unit where
  "u_rad_per_m2 = u_div u_rad (u_pow u_m 2)"

definition u_per_cm3 :: phys_unit where
  "u_per_cm3 = u_pow u_cm (- 3)"

text \<open>\<^verbatim>\<open>integrand = Bz.to_value(u.microgauss)*ne.to_value(u.cm**-3)\<close>\<close>

definition integrand :: "real arr3 quantity \<Rightarrow> real arr3 quantity \<Rightarrow> error + real arr3" where
  "integrand Bz ne =
     (case convert (unit Bz) u_microgauss of
        Inl e \<Rightarrow> Inl e
      | Inr fb \<Rightarrow>
          (case convert (unit ne) u_per_cm3 of
             Inl e \<Rightarrow> Inl e
           | Inr fn \<Rightarrow> zip3 (\<lambda>b n. (b * fb) * (n * fn)) (value Bz) (value ne)))"

text \<open>\<^verbatim>\<open>depth_grid.to_value(u.pc)\<close>\<close>

definition depth_pc :: "depth_values quantity \<Rightarrow> error + depth_values" where
  "depth_pc depth_grid =
     (case convert (unit depth_grid) u_pc of
        Inl e \<Rightarrow> Inl e
      | Inr f \<Rightarrow> Inr (scale_depth f (value depth_grid)))"

text \<open>
  \<^verbatim>\<open>(0.812*u.rad/u.m**2) * cumtrapz(integrand, depth_grid.to_value(u.pc), axis=2, initial=0)\<close>:
  the cumulative rotation measure at every depth sample.
\<close>

definition cumulative_RM ::
  "depth_values quantity \<Rightarrow> real arr3 quantity \<Rightarrow> real arr3 quantity \<Rightarrow> error + real arr3 quantity" where
  "cumulative_RM depth_grid Bz ne =
     (case integrand Bz ne of
        Inl e \<Rightarrow> Inl e
      | Inr y \<Rightarrow>
          (case depth_pc depth_grid of
             Inl e \<Rightarrow> Inl e
           | Inr x \<Rightarrow>
               (case zip_cols cumtrapz y (depth_cols x y) of
                  Inl e \<Rightarrow> Inl e
                | Inr c \<Rightarrow> Inr \<lparr>value = map (map (map (\<lambda>v. 0.812 * v))) c, unit = u_rad_per_m2\<rparr>)))"

text \<open>
  The rotation measure is an array, or the scalar \<^verbatim>\<open>0.0 * u.rad/u.m**2\<close> of the branch
  for a zero wavelength.
\<close>

datatype rm_values = Scalar real | Array "real arr3"

definition RM ::
  "depth_values quantity \<Rightarrow> real quantity \<Rightarrow> real arr3 quantity \<Rightarrow> real arr3 quantity
     \<Rightarrow> error + rm_values quantity" where
  "RM depth_grid wavelength Bz ne =
     (if value wavelength \<noteq> 0
      then (case cumulative_RM depth_grid Bz ne of
              Inl e \<Rightarrow> Inl e
            | Inr r \<Rightarrow> Inr \<lparr>value = Array (value r), unit = unit r\<rparr>)
      else Inr \<lparr>value = Scalar 0, unit = u_rad_per_m2\<rparr>)"

text \<open>
  \<^verbatim>\<open>psi = psi0 + wavelength**2*RM\<close>: the rotation \<^verbatim>\<open>wavelength**2*RM\<close> is converted to the
  unit of \<^verbatim>\<open>psi0\<close>; a scalar is added to every element.
\<close>

definition psi :: "fl arr3 quantity \<Rightarrow> real quantity \<Rightarrow> rm_values quantity \<Rightarrow> error + fl arr3 quantity" where
  "psi ps0 wavelength rm =
     (case convert (u_mul (u_pow (unit wavelength) 2) (unit rm)) (unit ps0) of
        Inl e \<Rightarrow> Inl e
      | Inr f \<Rightarrow>
          (case value rm of
             Scalar r \<Rightarrow>
               Inr \<lparr>value = map3 (\<lambda>a. fl_add a (Fin (value wavelength ^ 2 * r * f))) (value ps0),
                    unit = unit ps0\<rparr>
           | Array rs \<Rightarrow>
               (case zip3 (\<lambda>a r. fl_add a (Fin (value wavelength ^ 2 * r * f))) (value ps0) rs of
                  Inl e \<Rightarrow> Inl e
                | Inr v \<Rightarrow> Inr \<lparr>value = v, unit = unit ps0\<rparr>)))"

subsection \<open>Stokes parameters\<close>

text \<open>\<^verbatim>\<open>p0 = (gamma+1)/(gamma+7/3)\<close>, a division of Python floats.\<close>

definition p0 :: "real \<Rightarrow> error + real" where
  "p0 gamma = (if gamma + 7 / 3 = 0 then Inl ZeroDivisionError else Inr ((gamma + 1) / (gamma + 7 / 3)))"

text \<open>
  \<^verbatim>\<open>p0*integrate(emissivity * np.sin(2*psi), depth_grid, axis=2)\<close>, with \<open>trig\<close> the sine or
  the cosine.
\<close>

definition polarized ::
  "(fl \<Rightarrow> fl) \<Rightarrow> real \<Rightarrow> fl arr3 quantity \<Rightarrow> fl arr3 quantity \<Rightarrow> depth_values quantity
     \<Rightarrow> error + fl arr2 quantity" where
  "polarized trig p emis ps depth_grid =
     (case convert (unit ps) u_rad of
        Inl e \<Rightarrow> Inl e
      | Inr f \<Rightarrow>
          (case zip3 (\<lambda>e a. fl_mul e (trig (fl_mul (fl_mul (Fin 2) a) (Fin f)))) (value emis) (value ps) of
             Inl e \<Rightarrow> Inl e
           | Inr v \<Rightarrow>
               (case integrate \<lparr>value = v, unit = unit emis\<rparr> depth_grid of
                  Inl e \<Rightarrow> Inl e
                | Inr m \<Rightarrow> Inr \<lparr>value = map (map (fl_mul (Fin p))) (value m), unit = unit m\<rparr>)))"

text \<open>
  \<^verbatim>\<open>gaussian_filter(Stokes.value, sigma=beam_kernel_sd)*Stokes.unit\<close> when a standard
  deviation is given.  The filter of \<^verbatim>\<open>scipy.ndimage\<close> is a parameter \<open>gf\<close>.
\<close>

definition beam :: "('a arr2 \<Rightarrow> real \<Rightarrow> 'a arr2) \<Rightarrow> real option \<Rightarrow> 'a arr2 quantity \<Rightarrow> 'a arr2 quantity" where
  "beam gf beam_kernel_sd m =
     (case beam_kernel_sd of
        None \<Rightarrow> m
      | Some sd \<Rightarrow> \<lparr>value = gf (value m) sd, unit = unit m\<rparr>)"

text \<open>The body of \<^verbatim>\<open>compute_stokes_parameters\<close> after the depth grid has been normalised.\<close>

definition stokes_body ::
  "(fl arr2 \<Rightarrow> real \<Rightarrow> fl arr2) \<Rightarrow> depth_values quantity \<Rightarrow> real quantity
     \<Rightarrow> real arr3 quantity \<Rightarrow> real arr3 quantity \<Rightarrow> real arr3 quantity
     \<Rightarrow> real arr3 quantity \<Rightarrow> real arr3 quantity \<Rightarrow> real \<Rightarrow> real option
     \<Rightarrow> error + (fl arr2 quantity \<times> fl arr2 quantity \<times> fl arr2 quantity)" where
  "stokes_body gf depth_grid wavelength Bx By Bz ne ncr gamma beam_kernel_sd =
     (case Bperp2 Bx By of Inl e \<Rightarrow> Inl e | Inr bperp2 \<Rightarrow>
      case emissivity ncr bperp2 wavelength gamma of Inl e \<Rightarrow> Inl e | Inr emis \<Rightarrow>
      case integrate emis depth_grid of Inl e \<Rightarrow> Inl e | Inr I \<Rightarrow>
      case psi0 Bx By of Inl e \<Rightarrow> Inl e | Inr ps0 \<Rightarrow>
      case RM depth_grid wavelength Bz ne of Inl e \<Rightarrow> Inl e | Inr rm \<Rightarrow>
      case psi ps0 wavelength rm of Inl e \<Rightarrow> Inl e | Inr ps \<Rightarrow>
      case p0 gamma of Inl e \<Rightarrow> Inl e | Inr p \<Rightarrow>
      case polarized fl_sin p emis ps depth_grid of Inl e \<Rightarrow> Inl e | Inr U \<Rightarrow>
      case polarized fl_cos p emis ps depth_grid of Inl e \<Rightarrow> Inl e | Inr Q \<Rightarrow>
        Inr (beam gf beam_kernel_sd I, beam gf beam_kernel_sd U, beam gf beam_kernel_sd Q))"

text \<open>
  \<^verbatim>\<open>compute_stokes_parameters\<close>: the warnings issued, and the error raised or the tuple
  returned by \<^verbatim>\<open>return I, U, Q\<close>.
\<close>

definition compute_stokes_parameters ::
  "(fl arr2 \<Rightarrow> real \<Rightarrow> fl arr2) \<Rightarrow> depth_arg \<Rightarrow> real quantity
     \<Rightarrow> real arr3 quantity \<Rightarrow> real arr3 quantity \<Rightarrow> real arr3 quantity
     \<Rightarrow> real arr3 quantity \<Rightarrow> real arr3 quantity \<Rightarrow> real \<Rightarrow> real option
     \<Rightarrow> warning list \<times> (error + (fl arr2 quantity \<times> fl arr2 quantity \<times> fl arr2 quantity))" where
  "compute_stokes_parameters gf depth_grid wavelength Bx By Bz ne ncr gamma beam_kernel_sd =
     (case legacy_depth_grid depth_grid of
        (ws, d) \<Rightarrow> (ws, stokes_body gf d wavelength Bx By Bz ne ncr gamma beam_kernel_sd))"

subsection \<open>Faraday depth\<close>

text \<open>
  \<^verbatim>\<open>(0.812*u.rad/u.m**2) * trapz(integrand, depth_grid.to_value(u.pc), axis=2)\<close>, then the
  beam.
\<close>

definition fd_body ::
  "(real arr2 \<Rightarrow> real \<Rightarrow> real arr2) \<Rightarrow> depth_values quantity \<Rightarrow> real arr3 quantity
     \<Rightarrow> real arr3 quantity \<Rightarrow> real option \<Rightarrow> error + real arr2 quantity" where
  "fd_body gf depth_grid Bz ne beam_kernel_sd =
     (case integrand Bz ne of Inl e \<Rightarrow> Inl e | Inr y \<Rightarrow>
      case depth_pc depth_grid of Inl e \<Rightarrow> Inl e | Inr x \<Rightarrow>
      case zip_cols trapz y (depth_cols x y) of Inl e \<Rightarrow> Inl e | Inr t \<Rightarrow>
        Inr (beam gf beam_kernel_sd \<lparr>value = map (map (\<lambda>v. 0.812 * v)) t, unit = u_rad_per_m2\<rparr>))"

definition compute_fd ::
  "(real arr2 \<Rightarrow> real \<Rightarrow> real arr2) \<Rightarrow> depth_arg \<Rightarrow> real arr3 quantity
     \<Rightarrow> real arr3 quantity \<Rightarrow> real option \<Rightarrow> warning list \<times> (error + real arr2 quantity)" where
  "compute_fd gf depth_grid Bz ne beam_kernel_sd =
     (case legacy_depth_grid depth_grid of
        (ws, d) \<Rightarrow> (ws, fd_body gf d Bz ne beam_kernel_sd))"

section \<open>The Stokes integrals as the specification states them\<close>





section \<open>The angle kernels at a large angle\<close>

text \<open>
  Near \<open>10\<^sup>1\<^sup>7\<close> two neighbouring \<^verbatim>\<open>float64\<close> numbers are \<open>16\<close> apart, so adding or
  subtracting less than \<open>8\<close> gives \<open>10\<^sup>1\<^sup>7\<close> back.
\<close>

lemma floor_log2_56: "2 ^ 56 \<le> x \<Longrightarrow> x < 2 ^ 57 \<Longrightarrow> \<lfloor>log 2 x\<rfloor> = 56"
proof -
  assume a: "2 ^ 56 \<le> x" "x < 2 ^ 57"
  hence p: "0 < x" by simp
  have "(2::real) powr 56 \<le> x" using a by simp
  hence l: "56 \<le> log 2 x" using p by (simp add: le_log_iff)
  have "x < (2::real) powr 57" using a by simp
  hence u: "log 2 x < 57" using p by (simp add: log_less_iff)
  from l u show ?thesis by linarith
qed

lemma floor_log2_2: "4 \<le> x \<Longrightarrow> x < 8 \<Longrightarrow> \<lfloor>log 2 x\<rfloor> = 2"
proof -
  assume a: "4 \<le> x" "x < 8"
  hence p: "0 < x" by simp
  have "(2::real) powr 2 \<le> x" using a by simp
  hence l: "2 \<le> log 2 x" using p by (simp add: le_log_iff)
  have "x < (2::real) powr 3" using a by simp
  hence u: "log 2 x < 3" using p by (simp add: log_less_iff)
  from l u show ?thesis by linarith
qed

lemma two_np_pi: "fmul 2 np_pi = 2 * np_pi"
proof -
  have "\<lfloor>log 2 \<bar>2 * np_pi\<bar>\<rfloor> = 2"
    by (rule floor_log2_2) (simp_all add: np_pi_def)
  thus ?thesis
    by (simp add: fmul_def round64_def Let_def np_pi_def round_even_def power_int_minus)
qed

lemma round64_near_1e17:
  assumes "\<bar>c\<bar> < 8"
  shows "round64 (10 ^ 17 + c) = 10 ^ 17"
proof -
  let ?x = "10 ^ 17 + c :: real"
  have b: "2 ^ 56 \<le> ?x" "?x < 2 ^ 57" using assms by simp_all
  hence x: "?x \<noteq> 0" "\<bar>?x\<bar> = ?x" by simp_all
  have e: "\<lfloor>log 2 ?x\<rfloor> = 56" by (rule floor_log2_56 [OF b])
  have "round_even (?x / 16) = 6250000000000000"
  proof (cases "0 \<le> c")
    case True
    with assms have "\<lfloor>?x / 16\<rfloor> = 6250000000000000" by (intro floor_unique) simp_all
    with True assms show ?thesis by (simp add: round_even_def)
  next
    case False
    with assms have "\<lfloor>?x / 16\<rfloor> = 6249999999999999" by (intro floor_unique) simp_all
    with False assms show ?thesis by (simp add: round_even_def)
  qed
  with x e show ?thesis
    by (simp add: round64_def Let_def)
qed

lemma sub_pi_1e17: "fsub (10 ^ 17) np_pi = 10 ^ 17"
proof -
  have "\<bar>- np_pi\<bar> < 8" by (simp add: np_pi_def)
  from round64_near_1e17 [OF this] show ?thesis by (simp add: fsub_def)
qed

lemma add_pi_1e17: "fadd (10 ^ 17) np_pi = 10 ^ 17"
proof -
  have "\<bar>np_pi\<bar> < 8" by (simp add: np_pi_def)
  from round64_near_1e17 [OF this] show ?thesis by (simp add: fadd_def)
qed

lemma sub_2pi_1e17: "fsub (10 ^ 17) (fmul 2 np_pi) = 10 ^ 17"
proof -
  have "\<bar>- (2 * np_pi)\<bar> < 8" by (simp add: np_pi_def)
  from round64_near_1e17 [OF this] have "round64 (10 ^ 17 - 2 * np_pi) = 10 ^ 17" by simp
  thus ?thesis by (simp only: fsub_def two_np_pi)
qed

text \<open>
  Claim C1 fails on the code at \<open>d = 10\<^sup>1\<^sup>7\<close>: \<^verbatim>\<open>diff-pi\<close> and \<^verbatim>\<open>diff+pi\<close> are both
  \<open>10\<^sup>1\<^sup>7\<close> again, so neither loop test holds and \<^verbatim>\<open>_adjust_diff\<close> returns \<open>10\<^sup>1\<^sup>7\<close>
  unchanged, which is far above \<open>\<pi>/2\<close>.
\<close>

theorem adjust_diff_1e17_unchanged:
  "adjust_diff (10 ^ 17) = Some (10 ^ 17) \<and> pi / 2 < (10 :: real) ^ 17"
proof -
  have "adjust_diff_down (10 ^ 17) = Some (10 ^ 17)"
    using sub_pi_1e17 by (subst adjust_diff_down.simps) simp
  moreover have "adjust_diff_up (10 ^ 17) = Some (10 ^ 17)"
    using add_pi_1e17 by (subst adjust_diff_up.simps) simp
  moreover have "pi / 2 < (10 :: real) ^ 17" using pi_less_4 by simp
  ultimately show ?thesis by (simp add: adjust_diff_def)
qed

lemma adjust_angles_down_1e17:
  assumes "adjust_angles_down phi = Some y"
  shows "phi \<noteq> 10 ^ 17"
proof -
  have step: "x \<noteq> 10 ^ 17"
    if ih: "\<And>x y. f x = Some y \<Longrightarrow> x \<noteq> 10 ^ 17"
      and r: "(if np_pi < x then f (fsub x (fmul 2 np_pi)) else Some x) = Some z"
    for f x z
  proof
    assume p: "x = 10 ^ 17"
    hence "np_pi < x" by (simp add: np_pi_def)
    with r have "f (fsub x (fmul 2 np_pi)) = Some z" by simp
    hence "f (10 ^ 17) = Some z" by (simp only: p sub_2pi_1e17)
    from ih [OF this] show False by simp
  qed
  show ?thesis
    by (rule adjust_angles_down.raw_induct [where P = "\<lambda>x y. x \<noteq> 10 ^ 17", OF step assms])
qed

text \<open>
  Claim C4 fails on the code at \<open>\<theta> = 10\<^sup>1\<^sup>7\<close>: \<^verbatim>\<open>psi -= 2*pi\<close> leaves \<open>10\<^sup>1\<^sup>7\<close> as it is,
  so the first loop of \<^verbatim>\<open>adjust_angles\<close> never ends and no value is returned.
\<close>

theorem adjust_angles_1e17_never_returns: "adjust_angles (10 ^ 17) = None"
proof -
  have "adjust_angles_down (10 ^ 17) = None"
    using adjust_angles_down_1e17 [of "10 ^ 17"] by (cases "adjust_angles_down (10 ^ 17)") auto
  thus ?thesis by (simp add: adjust_angles_def)
qed

section \<open>The angle kernels at an angle of ordinary size\<close>

text \<open>
  A number whose quotient by the unit in the last place of its binade is an integer is a
  \<^verbatim>\<open>float64\<close>: rounding leaves it as it is.
\<close>

lemma floor_log2:
  assumes "2 powi e \<le> x" "x < 2 powi (e + 1)"
  shows "\<lfloor>log 2 x\<rfloor> = e"
proof -
  have p: "0 < x" using assms(1) by (rule less_le_trans [rotated]) simp
  have p1: "(2::real) powr of_int e = 2 powi e" by (rule powr_real_of_int') simp_all
  have p2: "(2::real) powr of_int (e + 1) = 2 powi (e + 1)" by (rule powr_real_of_int') simp_all
  have "(2::real) powr of_int e \<le> x" using assms(1) by (simp only: p1)
  hence l: "of_int e \<le> log 2 x" using p by (simp add: le_log_iff)
  have "x < (2::real) powr of_int (e + 1)" using assms(2) by (simp only: p2)
  hence "log 2 x < of_int (e + 1)" using p by (simp only: log_less_iff)
  hence u: "log 2 x < of_int e + 1" by simp
  from l u show ?thesis by (rule floor_unique)
qed

lemma round_even_of_int: "round_even (of_int m) = m"
  by (simp add: round_even_def)

lemma round64_exact:
  assumes b: "2 powi e \<le> \<bar>x\<bar>" "\<bar>x\<bar> < 2 powi (e + 1)" and e: "- 1022 \<le> e"
    and m: "x / 2 powi (e - 52) = of_int m"
  shows "round64 x = x"
proof -
  have "0 < \<bar>x\<bar>" using b(1) by (rule less_le_trans [rotated]) simp
  hence x: "x \<noteq> 0" by simp
  have l: "\<lfloor>log 2 \<bar>x\<bar>\<rfloor> = e" by (rule floor_log2 [OF b])
  have "round64 x = 2 powi (e - 52) * of_int (round_even (x / 2 powi (e - 52)))"
    using x e by (simp add: round64_def Let_def l max_def)
  also have "\<dots> = 2 powi (e - 52) * of_int m" by (simp only: m round_even_of_int)
  also have "\<dots> = x" using m by (simp add: field_simps)
  finally show ?thesis .
qed

lemma sub_3_pi: "fsub 3 np_pi = 3 - np_pi"
  unfolding fsub_def
  by (rule round64_exact [where e = "- 3" and m = "- 5101412975563136"])
    (simp_all add: np_pi_def power_int_minus)

lemma sub_3_pi_pi: "fsub (3 - np_pi) np_pi = 3 - 2 * np_pi"
proof -
  have "round64 (3 - 2 * np_pi) = 3 - 2 * np_pi"
    by (rule round64_exact [where e = 1 and m = "- 7393076063001136"])
      (simp_all add: np_pi_def power_int_minus)
  thus ?thesis by (simp add: fsub_def)
qed

lemma add_3_pi_pi: "fadd (3 - np_pi) np_pi = 3"
proof -
  have "round64 3 = 3"
    by (rule round64_exact [where e = 1 and m = "6755399441055744"])
      (simp_all add: power_int_minus)
  thus ?thesis by (simp add: fadd_def)
qed

text \<open>
  At angles of ordinary size the shifts are exact and the kernels do reduce: from \<open>3\<close>
  \<^verbatim>\<open>_adjust_diff\<close> returns \<open>3 - pi\<close>, inside \<open>(-\<pi>/2, \<pi>/2]\<close>.
\<close>

lemma adjust_diff_at_3:
  "adjust_diff 3 = Some (3 - np_pi) \<and> - (pi / 2) < 3 - np_pi \<and> 3 - np_pi \<le> pi / 2"
proof -
  have u: "adjust_diff_up (3 - np_pi) = Some (3 - np_pi)"
    by (subst adjust_diff_up.simps) (simp add: add_3_pi_pi, simp add: np_pi_def)
  have "adjust_diff_down (3 - np_pi) = Some (3 - np_pi)"
    by (subst adjust_diff_down.simps) (simp add: sub_3_pi_pi, simp add: np_pi_def)
  hence "adjust_diff_down 3 = Some (3 - np_pi)"
    by (subst adjust_diff_down.simps) (simp add: sub_3_pi, simp add: np_pi_def)
  with u have "adjust_diff 3 = Some (3 - np_pi)" by (simp add: adjust_diff_def)
  moreover have "- (pi / 2) < 3 - np_pi" "3 - np_pi \<le> pi / 2"
    using pi_ge_two by (simp_all add: np_pi_def)
  ultimately show ?thesis by simp
qed

text \<open>From \<open>6\<close> \<^verbatim>\<open>adjust_angles\<close> returns \<open>6 - 2 pi\<close>, inside \<open>(-\<pi>, \<pi>]\<close>.\<close>

lemma sub_6_2pi: "fsub 6 (fmul 2 np_pi) = 6 - 2 * np_pi"
proof -
  have "round64 (6 - 2 * np_pi) = 6 - 2 * np_pi"
    by (rule round64_exact [where e = "- 2" and m = "- 5101412975563136"])
      (simp_all add: np_pi_def power_int_minus)
  thus ?thesis by (simp only: fsub_def two_np_pi)
qed

lemma adjust_angles_at_6:
  "adjust_angles 6 = Some (6 - 2 * np_pi) \<and> - pi < 6 - 2 * np_pi \<and> 6 - 2 * np_pi \<le> pi"
proof -
  have u: "adjust_angles_up (6 - 2 * np_pi) = Some (6 - 2 * np_pi)"
    by (subst adjust_angles_up.simps) (simp add: np_pi_def)
  have "adjust_angles_down (6 - 2 * np_pi) = Some (6 - 2 * np_pi)"
    by (subst adjust_angles_down.simps) (simp add: np_pi_def)
  hence "adjust_angles_down 6 = Some (6 - 2 * np_pi)"
    by (subst adjust_angles_down.simps) (simp add: sub_6_2pi, simp add: np_pi_def)
  with u have "adjust_angles 6 = Some (6 - 2 * np_pi)" by (simp add: adjust_angles_def)
  moreover have "- pi < 6 - 2 * np_pi" "6 - 2 * np_pi \<le> pi"
    using pi_ge_two by (simp_all add: np_pi_def)
  ultimately show ?thesis by simp
qed

section \<open>Properties of the arrays\<close>

lemma shape_of_lengths:
  assumes "shape_of a = shape_of b"
  shows "length a = length b"
    and "i < length a \<Longrightarrow> length (a ! i) = length (b ! i)"
    and "i < length a \<Longrightarrow> j < length (a ! i) \<Longrightarrow> length (a ! i ! j) = length (b ! i ! j)"
proof -
  from assms have m: "map (map length) a = map (map length) b" by (simp add: shape_of_def)
  thus l: "length a = length b" by (rule map_eq_imp_length_eq)
  { assume i: "i < length a"
    from m have "map (map length) a ! i = map (map length) b ! i" by simp
    with i l have r: "map length (a ! i) = map length (b ! i)" by simp
    thus "length (a ! i) = length (b ! i)" by (rule map_eq_imp_length_eq)
    assume j: "j < length (a ! i)"
    from r have "map length (a ! i) ! j = map length (b ! i) ! j" by simp
    with j \<open>length (a ! i) = length (b ! i)\<close> show "length (a ! i ! j) = length (b ! i ! j)" by simp
  }
qed

lemma zip3_Inr:
  assumes "zip3 f a b = Inr c"
  shows "shape_of a = shape_of b" and "c = map2 (map2 (map2 f)) a b"
  using assms by (auto simp: zip3_def split: if_splits)

lemma zip3_nth:
  assumes z: "zip3 f a b = Inr c"
    and i: "i < length a" and j: "j < length (a ! i)" and k: "k < length (a ! i ! j)"
  shows "c ! i ! j ! k = f (a ! i ! j ! k) (b ! i ! j ! k)"
proof -
  note s = zip3_Inr(1) [OF z]
  note l = shape_of_lengths [OF s]
  have c: "c = map2 (map2 (map2 f)) a b" by (rule zip3_Inr(2) [OF z])
  from i l(1) have "c ! i = map2 (map2 f) (a ! i) (b ! i)" by (simp add: c)
  moreover from i j l(2) have "map2 (map2 f) (a ! i) (b ! i) ! j = map2 f (a ! i ! j) (b ! i ! j)"
    by simp
  moreover from i j k l(3) have "map2 f (a ! i ! j) (b ! i ! j) ! k = f (a ! i ! j ! k) (b ! i ! j ! k)"
    by simp
  ultimately show ?thesis by simp
qed

lemma zip3_shape:
  assumes z: "zip3 f a b = Inr c"
  shows "shape_of c = shape_of a"
proof -
  note s = zip3_Inr(1) [OF z]
  note l = shape_of_lengths [OF s]
  have c: "c = map2 (map2 (map2 f)) a b" by (rule zip3_Inr(2) [OF z])
  have "map (map length) c = map (map length) a"
  proof (rule nth_equalityI)
    show "length (map (map length) c) = length (map (map length) a)" using l(1) by (simp add: c)
  next
    fix i assume "i < length (map (map length) c)"
    hence i: "i < length a" using l(1) by (simp add: c)
    have "map length (c ! i) = map length (a ! i)"
    proof (rule nth_equalityI)
      show "length (map length (c ! i)) = length (map length (a ! i))"
        using i l(1) l(2) by (simp add: c)
    next
      fix j assume "j < length (map length (c ! i))"
      hence j: "j < length (a ! i)" using i l(1) l(2) by (simp add: c)
      with i l show "map length (c ! i) ! j = map length (a ! i) ! j" by (simp add: c)
    qed
    with i l(1) show "map (map length) c ! i = map (map length) a ! i" by (simp add: c)
  qed
  thus ?thesis by (simp add: shape_of_def)
qed

lemma map3_shape: "shape_of (map3 f a) = shape_of a"
  by (simp add: shape_of_def map3_def comp_def)

lemma map3_nth:
  "i < length a \<Longrightarrow> j < length (a ! i) \<Longrightarrow> k < length (a ! i ! j) \<Longrightarrow>
   map3 f a ! i ! j ! k = f (a ! i ! j ! k)"
  by (simp add: map3_def)

section \<open>Properties of the observables\<close>

subsection \<open>Intrinsic polarization angle\<close>

lemma psi0_voxel_degenerate: "psi0_voxel f 0 0 = Fin 0"
  by (simp add: psi0_voxel_def Let_def)

lemma psi0_voxel_range:
  assumes f: "f \<noteq> 0"
  shows "\<exists>r. psi0_voxel f by bx = Fin r \<and> 0 \<le> r \<and> r \<le> pi"
proof (cases "bx = 0")
  case True
  show ?thesis
  proof (cases "by = 0")
    case True
    with \<open>bx = 0\<close> show ?thesis by (simp add: psi0_voxel_degenerate)
  next
    case False
    with True f show ?thesis
      by (simp add: psi0_voxel_def Let_def np_divide_def)
  qed
next
  case False
  have "- (pi / 2) < arctan (by / bx * f)" "arctan (by / bx * f) < pi / 2"
    by (rule arctan_lbound, rule arctan_ubound)
  hence b: "0 \<le> arctan (by / bx * f) + pi / 2" "arctan (by / bx * f) + pi / 2 \<le> pi"
    by linarith+
  hence "\<not> pi < arctan (by / bx * f) + pi / 2" "\<not> arctan (by / bx * f) + pi / 2 < - pi"
    using pi_gt_zero by linarith+
  with False b show ?thesis
    by (simp add: psi0_voxel_def Let_def np_divide_def)
qed

lemma psi0_Inr:
  assumes "psi0 Bx By = Inr q"
  obtains r f where "zip3 (\<lambda>by bx. (by, bx)) (value By) (value Bx) = Inr r"
    and "convert (u_div (unit By) (unit Bx)) u_dimensionless = Inr f"
    and "q = \<lparr>value = map3 (\<lambda>(by, bx). psi0_voxel f by bx) r, unit = u_rad\<rparr>"
  using assms by (auto simp: psi0_def split: sum.splits)

lemma convert_Inr: "convert a b = Inr f \<Longrightarrow> f = scale a / scale b"
  by (auto simp: convert_def split: if_splits)

text \<open>
  Claim C7.  At every voxel where \<^verbatim>\<open>Bx\<close> and \<^verbatim>\<open>By\<close> are both exactly zero, the intrinsic
  polarization angle \<^verbatim>\<open>psi0\<close> is exactly \<open>0\<close>, and every element of the \<^verbatim>\<open>psi0\<close> field
  is a finite angle in \<open>(-\<pi>, \<pi>]\<close>.  The input fields hold real numbers and the units have
  positive scales.
\<close>

theorem psi0_degenerate_and_range:
  assumes q: "psi0 Bx By = Inr q"
    and sx: "0 < scale (unit Bx)" and sy: "0 < scale (unit By)"
    and i: "i < length (value q)" and j: "j < length (value q ! i)"
    and k: "k < length (value q ! i ! j)"
  shows "(\<exists>r. value q ! i ! j ! k = Fin r \<and> - pi < r \<and> r \<le> pi)
       \<and> (value Bx ! i ! j ! k = 0 \<and> value By ! i ! j ! k = 0 \<longrightarrow> value q ! i ! j ! k = Fin 0)"
proof -
  from q obtain r f where z: "zip3 (\<lambda>by bx. (by, bx)) (value By) (value Bx) = Inr r"
    and c: "convert (u_div (unit By) (unit Bx)) u_dimensionless = Inr f"
    and qv: "q = \<lparr>value = map3 (\<lambda>(by, bx). psi0_voxel f by bx) r, unit = u_rad\<rparr>"
    by (rule psi0_Inr)
  have "f = scale (unit By) / scale (unit Bx)"
    using convert_Inr [OF c] by (simp add: u_div_def u_dimensionless_def)
  with sx sy have f: "f \<noteq> 0" by simp
  have sq: "shape_of (value q) = shape_of r" by (simp add: qv map3_shape)
  note lq = shape_of_lengths [OF sq]
  have sr: "shape_of r = shape_of (value By)" by (rule zip3_shape [OF z])
  note lr = shape_of_lengths [OF sr]
  from i lq(1) have ir: "i < length r" by simp
  from i j lq(2) have jr: "j < length (r ! i)" by simp
  from i j k lq(3) have kr: "k < length (r ! i ! j)" by simp
  from ir lr(1) have ib: "i < length (value By)" by simp
  from ir jr lr(2) have jb: "j < length (value By ! i)" by simp
  from ir jr kr lr(3) have kb: "k < length (value By ! i ! j)" by simp
  have "r ! i ! j ! k = (value By ! i ! j ! k, value Bx ! i ! j ! k)"
    by (rule zip3_nth [OF z ib jb kb])
  hence v: "value q ! i ! j ! k = psi0_voxel f (value By ! i ! j ! k) (value Bx ! i ! j ! k)"
    using ir jr kr by (simp add: qv map3_nth)
  obtain x where "psi0_voxel f (value By ! i ! j ! k) (value Bx ! i ! j ! k) = Fin x"
    and "0 \<le> x" and "x \<le> pi"
    using psi0_voxel_range [OF f] by blast
  moreover from \<open>0 \<le> x\<close> have "- pi < x" using pi_gt_zero by linarith
  ultimately have "\<exists>r. value q ! i ! j ! k = Fin r \<and> - pi < r \<and> r \<le> pi"
    using v by simp
  moreover have "value Bx ! i ! j ! k = 0 \<and> value By ! i ! j ! k = 0 \<longrightarrow> value q ! i ! j ! k = Fin 0"
    using v by (simp add: psi0_voxel_degenerate)
  ultimately show ?thesis by blast
qed

lemma ex_psi0:
  "psi0 \<lparr>value = [[[0, 1]]], unit = u_microgauss\<rparr> \<lparr>value = [[[0, 1]]], unit = u_microgauss\<rparr>
     = Inr \<lparr>value = [[[Fin 0, Fin (pi / 4 + pi / 2)]]], unit = u_rad\<rparr>"
  by (simp add: psi0_def zip3_def shape_of_def convert_def u_div_def u_microgauss_def
      u_dimensionless_def map3_def psi0_voxel_def Let_def np_divide_def arctan_one)

text \<open>
The theorem of claim C7 at a column with a degenerate voxel.
\<close>

theorem psi0_degenerate_and_range_witness:
  "psi0 \<lparr>value = [[[0, 1]]], unit = u_microgauss\<rparr> \<lparr>value = [[[0, 1]]], unit = u_microgauss\<rparr>
     = Inr \<lparr>value = [[[Fin 0, Fin (pi / 4 + pi / 2)]]], unit = u_rad\<rparr>
   \<and> 0 < scale u_microgauss
   \<and> (\<exists>r. [[[Fin 0, Fin (pi / 4 + pi / 2)]]] ! 0 ! 0 ! 0 = Fin r \<and> - pi < r \<and> r \<le> pi)
   \<and> [[[Fin 0, Fin (pi / 4 + pi / 2)]]] ! 0 ! 0 ! 0 = Fin 0"
  using ex_psi0 psi0_degenerate_and_range [OF ex_psi0, of 0 0 0]
  by (simp add: u_microgauss_def)


subsection \<open>Emissivity at a vanishing perpendicular field\<close>

lemma fl_add_zero [simp]: "fl_add a (Fin 0) = a"
  by (cases a) simp_all

lemma map3_id: "(\<And>x. f x = x) \<Longrightarrow> map3 f a = a"
  by (simp add: map3_def map_idI)

lemma Bperp2_Inr:
  assumes "Bperp2 Bx By = Inr b"
  obtains f where "zip3 (\<lambda>bx by. bx ^ 2 + by ^ 2 * f) (value Bx) (value By) = Inr (value b)"
  using assms by (auto simp: Bperp2_def split: sum.splits)

lemma degenerate_voxel_zero_iff:
  "fl_mul (fl_mul (Fin n) (np_power 0 ((gamma + 1) / 4))) F = Fin 0
   \<longleftrightarrow> (\<exists>r. F = Fin r \<and> (- 1 < gamma \<or> (gamma = - 1 \<and> n * r = 0)))"
proof -
  consider (pos) "- 1 < gamma" | (zero) "gamma = - 1" | (neg) "gamma < - 1" by linarith
  thus ?thesis
  proof cases
    case pos
    hence "np_power 0 ((gamma + 1) / 4) = Fin 0" by (simp add: np_power_def)
    with pos show ?thesis by (cases F) auto
  next
    case zero
    hence "np_power 0 ((gamma + 1) / 4) = Fin 1" by (simp add: np_power_def)
    with zero show ?thesis by (cases F) auto
  next
    case neg
    hence "np_power 0 ((gamma + 1) / 4) = Infty True" by (simp add: np_power_def)
    with neg show ?thesis by (cases F) auto
  qed
qed

text \<open>
  Claim C5, as amended.  At a voxel where \<^verbatim>\<open>Bx\<close> and \<^verbatim>\<open>By\<close> are both exactly zero the
  emissivity is computed without an error, and it is exactly \<open>0\<close> if and only if the
  wavelength factor \<^verbatim>\<open>wavelength**((gamma-1)/2)\<close> is finite and the exponent \<open>(\<gamma>+1)/4\<close> is
  positive (or is zero, with \<^verbatim>\<open>ncr\<close> times the wavelength factor zero at the voxel).
\<close>

theorem emissivity_degenerate_zero_iff:
  assumes b: "Bperp2 Bx By = Inr b"
    and s: "shape_of (value ncr) = shape_of (value Bx)"
    and i: "i < length (value Bx)" and j: "j < length (value Bx ! i)"
    and k: "k < length (value Bx ! i ! j)"
    and z: "value Bx ! i ! j ! k = 0" "value By ! i ! j ! k = 0"
  shows "\<exists>e. emissivity ncr b wavelength gamma = Inr e
           \<and> (value e ! i ! j ! k = Fin 0) =
             (\<exists>r. np_power (value wavelength) ((gamma - 1) / 2) = Fin r
                \<and> (- 1 < gamma \<or> (gamma = - 1 \<and> value ncr ! i ! j ! k * r = 0)))"
proof -
  from b obtain f where zb: "zip3 (\<lambda>bx by. bx ^ 2 + by ^ 2 * f) (value Bx) (value By) = Inr (value b)"
    by (rule Bperp2_Inr)
  have sb: "shape_of (value b) = shape_of (value Bx)" by (rule zip3_shape [OF zb])
  have b0: "value b ! i ! j ! k = 0"
    using zip3_nth [OF zb i j k] z by simp
  define v where "v = map2 (map2 (map2 (\<lambda>n b. fl_mul (Fin n) (np_power b ((gamma + 1) / 4)))))
     (value ncr) (value b)"
  have zv: "zip3 (\<lambda>n b. fl_mul (Fin n) (np_power b ((gamma + 1) / 4))) (value ncr) (value b) = Inr v"
    using s sb by (simp add: zip3_def v_def)
  define e where "e = \<lparr>value = map3 (\<lambda>x. fl_mul x (np_power (value wavelength) ((gamma - 1) / 2))) v,
     unit = u_mul (u_mul (unit ncr) (u_pow (unit b) ((gamma + 1) / 4)))
                  (u_pow (unit wavelength) ((gamma - 1) / 2))\<rparr>"
  have e: "emissivity ncr b wavelength gamma = Inr e"
    by (simp add: emissivity_def zv e_def)
  note ln = shape_of_lengths [OF s]
  from i ln(1) have i': "i < length (value ncr)" by simp
  from i j ln(2) [OF i'] have j': "j < length (value ncr ! i)" by simp
  from i j k ln(3) [OF i' j'] have k': "k < length (value ncr ! i ! j)" by simp
  have vv: "v ! i ! j ! k = fl_mul (Fin (value ncr ! i ! j ! k)) (np_power 0 ((gamma + 1) / 4))"
    using zip3_nth [OF zv i' j' k'] b0 by simp
  have sv: "shape_of v = shape_of (value ncr)" by (rule zip3_shape [OF zv])
  note lv = shape_of_lengths [OF sv]
  from i' lv(1) have i'': "i < length v" by simp
  from i' j' lv(2) [OF i''] have j'': "j < length (v ! i)" by simp
  from i' j' k' lv(3) [OF i'' j''] have k'': "k < length (v ! i ! j)" by simp
  have "value e ! i ! j ! k
      = fl_mul (fl_mul (Fin (value ncr ! i ! j ! k)) (np_power 0 ((gamma + 1) / 4)))
          (np_power (value wavelength) ((gamma - 1) / 2))"
    using i'' j'' k'' by (simp add: e_def map3_nth vv)
  hence "(value e ! i ! j ! k = Fin 0) =
             (\<exists>r. np_power (value wavelength) ((gamma - 1) / 2) = Fin r
                \<and> (- 1 < gamma \<or> (gamma = - 1 \<and> value ncr ! i ! j ! k * r = 0)))"
    by (simp only: degenerate_voxel_zero_iff)
  with e show ?thesis by blast
qed

lemma ex_Bperp2:
  "Bperp2 \<lparr>value = [[[0]]], unit = u_microgauss\<rparr> \<lparr>value = [[[0]]], unit = u_microgauss\<rparr>
     = Inr \<lparr>value = [[[0]]], unit = u_pow u_microgauss 2\<rparr>"
  by (simp add: Bperp2_def convert_def u_pow_def u_microgauss_def zip3_def shape_of_def)

text \<open>The theorem of claim C5 at \<open>\<gamma> = 3\<close> and a wavelength of \<open>1 m\<close>.\<close>

theorem emissivity_degenerate_zero_iff_witness:
  "Bperp2 \<lparr>value = [[[0]]], unit = u_microgauss\<rparr> \<lparr>value = [[[0]]], unit = u_microgauss\<rparr>
     = Inr \<lparr>value = [[[0]]], unit = u_pow u_microgauss 2\<rparr>
   \<and> np_power 1 ((3 - 1) / 2) = Fin 1
   \<and> (\<exists>e. emissivity \<lparr>value = [[[1]]], unit = u_per_cm3\<rparr>
          \<lparr>value = [[[0]]], unit = u_pow u_microgauss 2\<rparr> \<lparr>value = 1, unit = u_m\<rparr> 3 = Inr e
        \<and> value e ! 0 ! 0 ! 0 = Fin 0)"
proof -
  have p: "np_power 1 ((3 - 1) / 2) = Fin 1" by (simp add: np_power_def)
  from emissivity_degenerate_zero_iff [OF ex_Bperp2,
      of "\<lparr>value = [[[1]]], unit = u_per_cm3\<rparr>" 0 0 0 "\<lparr>value = 1, unit = u_m\<rparr>" 3]
  have "\<exists>e. emissivity \<lparr>value = [[[1]]], unit = u_per_cm3\<rparr>
          \<lparr>value = [[[0]]], unit = u_pow u_microgauss 2\<rparr> \<lparr>value = 1, unit = u_m\<rparr> 3 = Inr e
        \<and> value e ! 0 ! 0 ! 0 = Fin 0"
    using p by (simp add: shape_of_def)
  with ex_Bperp2 p show ?thesis by blast
qed

text \<open>
  Claim C5, as stated, fails in two ways.  At \<open>\<gamma> = -5\<close> the exponent \<open>(\<gamma>+1)/4\<close> is \<open>-1\<close>,
  the zero perpendicular field raised to it is \<open>+\<infinity>\<close>, and so is the emissivity.  At a
  wavelength of \<open>0\<close> and \<open>\<gamma> = 1/2\<close> the wavelength factor is \<open>0\<^sup>-\<^sup>1\<^sup>/\<^sup>4 = +\<infinity>\<close>, and the
  emissivity \<open>0 \<sqdot> \<infinity>\<close> is NaN.
\<close>

theorem emissivity_degenerate_not_zero:
  "Bperp2 \<lparr>value = [[[0]]], unit = u_microgauss\<rparr> \<lparr>value = [[[0]]], unit = u_microgauss\<rparr>
     = Inr \<lparr>value = [[[0]]], unit = u_pow u_microgauss 2\<rparr>
   \<and> map_sum id value (emissivity \<lparr>value = [[[1]]], unit = u_per_cm3\<rparr>
          \<lparr>value = [[[0]]], unit = u_pow u_microgauss 2\<rparr> \<lparr>value = 1, unit = u_m\<rparr> (- 5))
     = Inr [[[Infty True]]]
   \<and> map_sum id value (emissivity \<lparr>value = [[[1]]], unit = u_per_cm3\<rparr>
          \<lparr>value = [[[0]]], unit = u_pow u_microgauss 2\<rparr> \<lparr>value = 0, unit = u_m\<rparr> (1 / 2))
     = Inr [[[NaN]]]"
  using ex_Bperp2
  by (simp add: emissivity_def zip3_def shape_of_def map3_def np_power_def)


subsection \<open>Zero wavelength\<close>

text \<open>
  Claim C6.  When the wavelength is exactly \<open>0\<close> (and is a length), the rotation measure
  is the scalar \<open>0\<close> in \<^verbatim>\<open>rad/m**2\<close> whatever the fields and the depth grid are, and the
  rotated angle \<^verbatim>\<open>psi\<close> is \<^verbatim>\<open>psi0\<close>.
\<close>

theorem zero_wavelength_no_rotation:
  assumes w: "value wavelength = 0"
    and u: "len (unit wavelength) = 1" "fld (unit wavelength) = 0" "ang (unit wavelength) = 0"
    and p: "psi0 Bx By = Inr ps0"
  shows "RM depth_grid wavelength Bz ne = Inr \<lparr>value = Scalar 0, unit = u_rad_per_m2\<rparr>
       \<and> psi ps0 wavelength \<lparr>value = Scalar 0, unit = u_rad_per_m2\<rparr> = Inr ps0"
proof -
  from p have up: "unit ps0 = u_rad" by (rule psi0_Inr) simp
  have "\<exists>f. convert (u_mul (u_pow (unit wavelength) 2) u_rad_per_m2) (unit ps0) = Inr f"
    using u by (simp add: up convert_def u_mul_def u_pow_def u_rad_per_m2_def u_div_def u_rad_def u_m_def)
  then obtain f where "convert (u_mul (u_pow (unit wavelength) 2) u_rad_per_m2) (unit ps0) = Inr f" ..
  hence "psi ps0 wavelength \<lparr>value = Scalar 0, unit = u_rad_per_m2\<rparr> = Inr ps0"
    by (simp add: psi_def map3_id)
  moreover have "RM depth_grid wavelength Bz ne = Inr \<lparr>value = Scalar 0, unit = u_rad_per_m2\<rparr>"
    using w by (simp add: RM_def)
  ultimately show ?thesis by simp
qed

text \<open>
The theorem of claim C6 at a wavelength of \<open>0 m\<close>.
\<close>

theorem zero_wavelength_no_rotation_witness:
  "value \<lparr>value = 0 :: real, unit = u_m\<rparr> = 0
   \<and> RM \<lparr>value = Axis1D [0, 1], unit = u_pc\<rparr> \<lparr>value = 0, unit = u_m\<rparr>
        \<lparr>value = [[[1, 1]]], unit = u_microgauss\<rparr> \<lparr>value = [[[1, 1]]], unit = u_per_cm3\<rparr>
      = Inr \<lparr>value = Scalar 0, unit = u_rad_per_m2\<rparr>
   \<and> psi \<lparr>value = [[[Fin 0, Fin (pi / 4 + pi / 2)]]], unit = u_rad\<rparr> \<lparr>value = 0, unit = u_m\<rparr>
        \<lparr>value = Scalar 0, unit = u_rad_per_m2\<rparr>
      = Inr \<lparr>value = [[[Fin 0, Fin (pi / 4 + pi / 2)]]], unit = u_rad\<rparr>"
  using zero_wavelength_no_rotation [OF _ _ _ _ ex_psi0, of "\<lparr>value = 0, unit = u_m\<rparr>"
      "\<lparr>value = Axis1D [0, 1], unit = u_pc\<rparr>"
      "\<lparr>value = [[[1, 1]]], unit = u_microgauss\<rparr>" "\<lparr>value = [[[1, 1]]], unit = u_per_cm3\<rparr>"]
  by (simp add: u_m_def)


subsection \<open>Cumulative and total Faraday integrals\<close>













subsection \<open>Legacy depth grid\<close>

text \<open>
  Claim C9.  Given an object with the attribute \<^verbatim>\<open>z\<close>, both functions issue a
  \<^verbatim>\<open>DeprecationWarning\<close> and then raise or return exactly what they do on the depth
  array that the attribute holds.
\<close>

theorem legacy_grid_deprecation:
  "compute_stokes_parameters gf (GridObject g) wavelength Bx By Bz ne ncr gamma sd
     = ([DeprecationWarning],
        snd (compute_stokes_parameters gf (DepthArray g) wavelength Bx By Bz ne ncr gamma sd))
   \<and> compute_fd gf' (GridObject g) Bz ne sd
     = ([DeprecationWarning], snd (compute_fd gf' (DepthArray g) Bz ne sd))"
  by (simp add: compute_stokes_parameters_def compute_fd_def)

subsection \<open>Beam\<close>

text \<open>
  Claim C10.  Without a standard deviation the maps are returned as computed (the result
  is that of the identity filter, whatever the filter is); with a standard deviation
  \<open>sd\<close> every map is the filter applied to the value of the unsmoothed map, with the unit
  of the unsmoothed map.
\<close>

theorem beam_pass_through_or_smooth:
  "compute_stokes_parameters gf depth_grid wavelength Bx By Bz ne ncr gamma None
     = compute_stokes_parameters (\<lambda>m sd. m) depth_grid wavelength Bx By Bz ne ncr gamma (Some sd')
   \<and> snd (compute_stokes_parameters gf depth_grid wavelength Bx By Bz ne ncr gamma (Some sd))
     = map_sum id (\<lambda>(I, U, Q).
         (\<lparr>value = gf (value I) sd, unit = unit I\<rparr>, \<lparr>value = gf (value U) sd, unit = unit U\<rparr>,
          \<lparr>value = gf (value Q) sd, unit = unit Q\<rparr>))
         (snd (compute_stokes_parameters gf depth_grid wavelength Bx By Bz ne ncr gamma None))
   \<and> compute_fd gr depth_grid Bz ne None = compute_fd (\<lambda>m sd. m) depth_grid Bz ne (Some sd')
   \<and> snd (compute_fd gr depth_grid Bz ne (Some sd))
     = map_sum id (\<lambda>RM. \<lparr>value = gr (value RM) sd, unit = unit RM\<rparr>)
         (snd (compute_fd gr depth_grid Bz ne None))"
proof -
  have b: "\<And>(m :: fl arr2 quantity). \<lparr>value = value m, unit = unit m\<rparr> = m" by simp
  have c: "\<And>(m :: real arr2 quantity). \<lparr>value = value m, unit = unit m\<rparr> = m" by simp
  show ?thesis
    by (cases "legacy_depth_grid depth_grid")
      (simp add: compute_stokes_parameters_def compute_fd_def stokes_body_def fd_body_def
        beam_def split: sum.splits)
qed


subsection \<open>Order of the returned maps\<close>

lemma stokes_body_Inr:
  assumes "stokes_body gf d wavelength Bx By Bz ne ncr gamma sd = Inr (r1, r2, r3)"
  obtains bperp2 emis I ps0 rm ps p U Q where
    "Bperp2 Bx By = Inr bperp2" "emissivity ncr bperp2 wavelength gamma = Inr emis"
    "integrate emis d = Inr I" "psi0 Bx By = Inr ps0" "RM d wavelength Bz ne = Inr rm"
    "psi ps0 wavelength rm = Inr ps" "p0 gamma = Inr p"
    "polarized fl_sin p emis ps d = Inr U" "polarized fl_cos p emis ps d = Inr Q"
    "r1 = beam gf sd I" "r2 = beam gf sd U" "r3 = beam gf sd Q"
  using assms by (auto simp: stokes_body_def split: sum.splits)

text \<open>
  Claim C8.  The tuple returned by \<^verbatim>\<open>compute_stokes_parameters\<close> holds the total
  intensity first, the sine integral (Stokes \<open>U\<close>) second and the cosine integral (Stokes
  \<open>Q\<close>) third.
\<close>

theorem returns_I_U_Q:
  assumes "compute_stokes_parameters gf depth_grid wavelength Bx By Bz ne ncr gamma sd
             = (ws, Inr (r1, r2, r3))"
  shows "\<exists>bperp2 emis ps0 rm ps p I U Q.
           Bperp2 Bx By = Inr bperp2
         \<and> emissivity ncr bperp2 wavelength gamma = Inr emis
         \<and> psi0 Bx By = Inr ps0
         \<and> RM (snd (legacy_depth_grid depth_grid)) wavelength Bz ne = Inr rm
         \<and> psi ps0 wavelength rm = Inr ps
         \<and> p0 gamma = Inr p
         \<and> integrate emis (snd (legacy_depth_grid depth_grid)) = Inr I
         \<and> polarized fl_sin p emis ps (snd (legacy_depth_grid depth_grid)) = Inr U
         \<and> polarized fl_cos p emis ps (snd (legacy_depth_grid depth_grid)) = Inr Q
         \<and> r1 = beam gf sd I \<and> r2 = beam gf sd U \<and> r3 = beam gf sd Q"
proof -
  from assms have "stokes_body gf (snd (legacy_depth_grid depth_grid)) wavelength Bx By Bz ne ncr
      gamma sd = Inr (r1, r2, r3)"
    by (cases "legacy_depth_grid depth_grid") (simp add: compute_stokes_parameters_def)
  thus ?thesis by (rule stokes_body_Inr) blast
qed

lemma ex_stokes:
  "\<exists>I U Q. compute_stokes_parameters (\<lambda>m sd. m) (DepthArray \<lparr>value = Axis1D [0, 1], unit = u_pc\<rparr>)
      \<lparr>value = 1, unit = u_m\<rparr>
      \<lparr>value = [[[1, 1]]], unit = u_microgauss\<rparr> \<lparr>value = [[[0, 0]]], unit = u_microgauss\<rparr>
      \<lparr>value = [[[0, 0]]], unit = u_microgauss\<rparr> \<lparr>value = [[[1, 1]]], unit = u_per_cm3\<rparr>
      \<lparr>value = [[[1, 1]]], unit = u_per_cm3\<rparr> 3 None = ([], Inr (I, U, Q))
    \<and> value I = [[Fin 1]] \<and> value U = [[Fin 0]] \<and> value Q = [[Fin (- (3 / 4))]]"
  by (simp add: compute_stokes_parameters_def stokes_body_def Bperp2_def emissivity_def
      integrate_def psi0_def RM_def cumulative_RM_def psi_def p0_def polarized_def beam_def
      integrand_def depth_pc_def convert_def u_per_cm3_def u_pow_def u_mul_def u_div_def
      u_cm_def u_m_def u_rad_def u_rad_per_m2_def u_dimensionless_def
      u_microgauss_def zip3_def map3_def shape_of_def  u_pc_def zip_cols_def
      cumtrapz_def trapz_fl_def fl_sum_def psi0_voxel_def np_divide_def np_power_def Let_def)

text \<open>The theorem of claim C8 on a column of two depth samples.\<close>

theorem returns_I_U_Q_witness:
  "\<exists>r1 r2 r3 emis ps p I U Q.
      compute_stokes_parameters (\<lambda>m sd. m) (DepthArray \<lparr>value = Axis1D [0, 1], unit = u_pc\<rparr>)
        \<lparr>value = 1, unit = u_m\<rparr>
        \<lparr>value = [[[1, 1]]], unit = u_microgauss\<rparr> \<lparr>value = [[[0, 0]]], unit = u_microgauss\<rparr>
        \<lparr>value = [[[0, 0]]], unit = u_microgauss\<rparr> \<lparr>value = [[[1, 1]]], unit = u_per_cm3\<rparr>
        \<lparr>value = [[[1, 1]]], unit = u_per_cm3\<rparr> 3 None = ([], Inr (r1, r2, r3))
    \<and> integrate emis \<lparr>value = Axis1D [0, 1], unit = u_pc\<rparr> = Inr I
    \<and> polarized fl_sin p emis ps \<lparr>value = Axis1D [0, 1], unit = u_pc\<rparr> = Inr U
    \<and> polarized fl_cos p emis ps \<lparr>value = Axis1D [0, 1], unit = u_pc\<rparr> = Inr Q
    \<and> r1 = I \<and> r2 = U \<and> r3 = Q
    \<and> value r1 = [[Fin 1]] \<and> value r2 = [[Fin 0]] \<and> value r3 = [[Fin (- (3 / 4))]]"
proof -
  from ex_stokes obtain I U Q where
    e: "compute_stokes_parameters (\<lambda>m sd. m) (DepthArray \<lparr>value = Axis1D [0, 1], unit = u_pc\<rparr>)
        \<lparr>value = 1, unit = u_m\<rparr>
        \<lparr>value = [[[1, 1]]], unit = u_microgauss\<rparr> \<lparr>value = [[[0, 0]]], unit = u_microgauss\<rparr>
        \<lparr>value = [[[0, 0]]], unit = u_microgauss\<rparr> \<lparr>value = [[[1, 1]]], unit = u_per_cm3\<rparr>
        \<lparr>value = [[[1, 1]]], unit = u_per_cm3\<rparr> 3 None = ([], Inr (I, U, Q))"
    and v: "value I = [[Fin 1]]" "value U = [[Fin 0]]" "value Q = [[Fin (- (3 / 4))]]"
    by blast
  from returns_I_U_Q [OF e] obtain emis ps p I' U' Q' where
    "integrate emis \<lparr>value = Axis1D [0, 1], unit = u_pc\<rparr> = Inr I'"
    "polarized fl_sin p emis ps \<lparr>value = Axis1D [0, 1], unit = u_pc\<rparr> = Inr U'"
    "polarized fl_cos p emis ps \<lparr>value = Axis1D [0, 1], unit = u_pc\<rparr> = Inr Q'"
    "I = I'" "U = U'" "Q = Q'"
    by (auto simp: beam_def)
  with e v show ?thesis by blast
qed

subsection \<open>The Stokes integrals\<close>


lemma fl_mul_one [simp]: "fl_mul a (Fin 1) = a"
  by (cases a) simp_all
























end
